theory Spec2Isabelle
  imports Complex_Main
begin

section \<open>Go library functions used by the exporter\<close>

text \<open>
  The exporter is one Go file. It leans on a few functions of the Go standard library;
  they are written out here as far as the exporter's behaviour depends on them. Go
  strings are byte sequences, as \<^typ>\<open>string\<close> is; Go's \<^verbatim>\<open>int\<close> is taken to be the
  64-bit integer of the platforms the exporter is built for, so the conversion
  \<^verbatim>\<open>int(n)\<close> of an \<^verbatim>\<open>int64\<close> is the identity.
\<close>

subsection \<open>strings.Split with a one-byte separator\<close>

fun strings_Split :: "char \<Rightarrow> string \<Rightarrow> string list" where
  "strings_Split sep [] = [[]]"
| "strings_Split sep (c # cs) =
     (if c = sep then [] # strings_Split sep cs
      else (c # hd (strings_Split sep cs)) # tl (strings_Split sep cs))"

subsection \<open>strconv.ParseInt(p, 10, 64)\<close>

datatype NumError = ErrSyntax | ErrRange

definition maxUint64 :: int where
  "maxUint64 = 18446744073709551615"

definition isDigit :: "char \<Rightarrow> bool" where
  "isDigit c = (48 \<le> (of_char c :: int) \<and> (of_char c :: int) \<le> 57)"

text \<open>
  The digit loop of \<^verbatim>\<open>ParseUint\<close> in base 10: a byte that is not a decimal digit is a
  syntax error, and the value is checked against the 64-bit range before and after each
  digit is added. The \<^verbatim>\<open>uint64\<close> accumulator is an \<^typ>\<open>int\<close> here; the two range
  checks keep it below \<open>2 ^ 64\<close>, so it never wraps.
\<close>

fun ParseUint_loop :: "string \<Rightarrow> int \<Rightarrow> NumError + int" where
  "ParseUint_loop [] n = Inr n"
| "ParseUint_loop (c # cs) n =
     (if \<not> isDigit c then Inl ErrSyntax
      else if n \<ge> maxUint64 div 10 + 1 then Inl ErrRange
      else if n * 10 + ((of_char c :: int) - 48) > maxUint64 then Inl ErrRange
      else ParseUint_loop cs (n * 10 + ((of_char c :: int) - 48)))"

definition ParseUint :: "string \<Rightarrow> NumError + int" where
  "ParseUint s = (if s = [] then Inl ErrSyntax else ParseUint_loop s 0)"

definition ParseInt :: "string \<Rightarrow> NumError + int" where
  "ParseInt s =
     (if s = [] then Inl ErrSyntax
      else case ParseUint (if hd s = CHR ''+'' \<or> hd s = CHR ''-'' then tl s else s) of
        Inl e \<Rightarrow> Inl e
      | Inr un \<Rightarrow>
          if hd s \<noteq> CHR ''-'' \<and> un \<ge> 9223372036854775808 then Inl ErrRange
          else if hd s = CHR ''-'' \<and> un > 9223372036854775808 then Inl ErrRange
          else Inr (if hd s = CHR ''-'' then - un else un))"

subsection \<open>Ranging over a map\<close>

text \<open>
  A \<^verbatim>\<open>map[int]struct{}\<close> is kept as the list of its distinct keys. Go leaves the order
  in which \<^verbatim>\<open>range\<close> visits the keys to the runtime; the runtime's choice is the
  first argument of \<open>range_keys\<close>, a list of picks: each pick selects the next key among
  those not yet visited, and once the picks are used up the remaining keys follow as
  they are. Every order of the keys is the result of some list of picks.
\<close>

definition map_insert :: "'a \<Rightarrow> 'a list \<Rightarrow> 'a list" where
  "map_insert k m = (if k \<in> set m then m else m @ [k])"

fun range_keys :: "nat list \<Rightarrow> 'a list \<Rightarrow> 'a list" where
  "range_keys [] ks = ks"
| "range_keys (c # cs) ks =
     (if ks = [] then []
      else (ks ! (c mod length ks)) #
           range_keys cs (take (c mod length ks) ks @ drop (Suc (c mod length ks)) ks))"

subsection \<open>sort.Slice\<close>

text \<open>
  \<^verbatim>\<open>sort.Slice(x, less)\<close> never looks at the elements itself: it asks \<open>less\<close> about two
  positions and swaps two positions. The comparison gets the current slice, so that a
  closure such as \<^verbatim>\<open>x[i] < x[j]\<close> can be written. A slice of at most 12 elements is
  sorted by insertion alone:
  \<^verbatim>\<open>for i := a + 1; i < b; i++ { for j := i; j > a && less(j, j-1); j-- { swap(j, j-1) } }\<close>
  Longer slices go through the library's quicksort first; that phase is not written
  out, and what it leaves is an argument of \<open>sort_Slice\<close>.
\<close>

definition swap :: "nat \<Rightarrow> nat \<Rightarrow> 'a list \<Rightarrow> 'a list" where
  "swap i j xs = xs[i := xs ! j, j := xs ! i]"

fun insertion_inner :: "('a list \<Rightarrow> nat \<Rightarrow> nat \<Rightarrow> bool) \<Rightarrow> nat \<Rightarrow> 'a list \<Rightarrow> 'a list" where
  "insertion_inner lessf 0 xs = xs"
| "insertion_inner lessf (Suc j) xs =
     (if lessf xs (Suc j) j then insertion_inner lessf j (swap (Suc j) j xs) else xs)"

definition insertionSortLessFunc :: "('a list \<Rightarrow> nat \<Rightarrow> nat \<Rightarrow> bool) \<Rightarrow> 'a list \<Rightarrow> 'a list" where
  "insertionSortLessFunc lessf xs = fold (insertion_inner lessf) [1..<length xs] xs"

definition sort_Slice ::
  "('a list \<Rightarrow> 'a list) \<Rightarrow> ('a list \<Rightarrow> nat \<Rightarrow> nat \<Rightarrow> bool) \<Rightarrow> 'a list \<Rightarrow> 'a list" where
  "sort_Slice long lessf xs =
     (if length xs \<le> 12 then insertionSortLessFunc lessf xs else long xs)"

text \<open>What the Go runtime and library decide on their own.\<close>

record go_runtime =
  map_order :: "nat list"
  sort_long :: "int list \<Rightarrow> int list"

section \<open>The bot selector: getBots\<close>

datatype bots_error =
    NotValidDigit string NumError
  | ListContainsZero

text \<open>
  The loop over the comma-separated parts. It stops at the first part that
  \<^verbatim>\<open>ParseInt\<close> rejects, with the error
  \<^verbatim>\<open>string '%s' is not a valid digit: %w\<close> built from that part and the library's error.
\<close>

fun parse_parts :: "string list \<Rightarrow> int list \<Rightarrow> bool \<Rightarrow> bots_error + (int list \<times> bool)" where
  "parse_parts [] botMap hasZero = Inr (botMap, hasZero)"
| "parse_parts (p # ps) botMap hasZero =
     (case ParseInt p of
        Inl err \<Rightarrow> Inl (NotValidDigit p err)
      | Inr n \<Rightarrow> parse_parts ps (map_insert n botMap) (hasZero \<or> n = 0))"

text \<open>
  \<open>None\<close> is Go's \<^verbatim>\<open>nil\<close> slice, which means all the bots; \<open>Some bots\<close> is a slice that
  is not \<^verbatim>\<open>nil\<close>.
\<close>

definition getBots :: "go_runtime \<Rightarrow> string \<Rightarrow> bots_error + int list option" where
  "getBots rt s =
     (if s = [] then Inr None
      else case parse_parts (strings_Split CHR '','' s) [] False of
        Inl e \<Rightarrow> Inl e
      | Inr (botMap, hasZero) \<Rightarrow>
          if hasZero \<and> length botMap > 1 then Inl ListContainsZero
          else if hasZero \<and> length botMap = 0 then Inr None
          else Inr (Some (sort_Slice (sort_long rt) (\<lambda>bots i j. i < j)
                            (range_keys (map_order rt) botMap))))"

section \<open>Startup: the part of main before the servers run\<close>

text \<open>
  The devices come from the cloud client library; of a device the exporter reads the
  name, the serial number and three optional attributes (Go pointers, \<open>None\<close> for
  \<^verbatim>\<open>nil\<close>).
\<close>

record Robot =
  Name :: string
  Serial :: string
  Model :: "string option"
  Firmware :: "string option"
  MACAddress :: "string option"

datatype gauge = BatteryGauge | AreaGauge | StateGauge

datatype fatal =
    EmptyToken
  | FailedParseBots bots_error
  | FailedGetRobots string
  | NoBotsFound
  | RobotOutOfBounds int nat
  | FailedRegister gauge string

text \<open>
  How startup ends: \<^verbatim>\<open>log.Fatalf\<close> (the message is logged and the process exits), a
  run-time panic on a slice index out of range (the index and the length of the slice),
  or the collector started on the resolved devices.
\<close>

datatype outcome =
    Fatal fatal
  | PanicIndexOutOfRange int nat
  | CollectorStarted "Robot list"

text \<open>Subtraction and addition on Go's 64-bit \<^verbatim>\<open>int\<close> wrap around.\<close>

definition wrap64 :: "int \<Rightarrow> int" where
  "wrap64 x = (x + 9223372036854775808) mod 18446744073709551616 - 9223372036854775808"

text \<open>
  The loop that resolves the selected numbers against the roster:
  \<^verbatim>\<open>for _, n := range bots { if n > len(allRobots) { log.Fatalf(...) }
    robots = append(robots, allRobots[n-1]) }\<close>
\<close>

fun select_robots :: "int list \<Rightarrow> Robot list \<Rightarrow> Robot list \<Rightarrow> outcome + Robot list" where
  "select_robots [] allRobots robots = Inr robots"
| "select_robots (n # ns) allRobots robots =
     (if n > int (length allRobots) then Inl (Fatal (RobotOutOfBounds n (length allRobots)))
      else if wrap64 (n - 1) < 0 \<or> wrap64 (n - 1) \<ge> int (length allRobots)
        then Inl (PanicIndexOutOfRange (wrap64 (n - 1)) (length allRobots))
      else select_robots ns allRobots (robots @ [allRobots ! nat (wrap64 (n - 1))]))"

text \<open>A \<^verbatim>\<open>nil\<close> selection takes the whole roster.\<close>

definition resolve :: "int list option \<Rightarrow> Robot list \<Rightarrow> outcome + Robot list" where
  "resolve bots allRobots =
     (case bots of None \<Rightarrow> Inr allRobots | Some ns \<Rightarrow> select_robots ns allRobots [])"

fun register_all :: "(gauge \<Rightarrow> string option) \<Rightarrow> gauge list \<Rightarrow> fatal option" where
  "register_all reg [] = None"
| "register_all reg (g # gs) =
     (case reg g of Some err \<Rightarrow> Some (FailedRegister g err) | None \<Rightarrow> register_all reg gs)"

text \<open>
  \<open>main\<close> up to the start of the collector. Its inputs are the two flags it reads, what
  the account's \<^verbatim>\<open>Robots()\<close> call answers (an error message or the roster), and what
  \<^verbatim>\<open>prometheus.Register\<close> answers for each gauge (\<open>Some\<close> error or \<open>None\<close>).
\<close>

definition main :: "go_runtime \<Rightarrow> string \<Rightarrow> string \<Rightarrow> string + Robot list \<Rightarrow>
    (gauge \<Rightarrow> string option) \<Rightarrow> outcome" where
  "main rt flagToken flagBots accRobots reg =
     (if flagToken = [] then Fatal EmptyToken
      else case getBots rt flagBots of
        Inl err \<Rightarrow> Fatal (FailedParseBots err)
      | Inr bots \<Rightarrow>
         (case accRobots of
            Inl err \<Rightarrow> Fatal (FailedGetRobots err)
          | Inr allRobots \<Rightarrow>
             if length allRobots = 0 then Fatal NoBotsFound
             else (case resolve bots allRobots of
                     Inl out \<Rightarrow> out
                   | Inr robots \<Rightarrow>
                      (case register_all reg [BatteryGauge, AreaGauge, StateGauge] of
                         Some f \<Rightarrow> Fatal f
                       | None \<Rightarrow> CollectorStarted robots))))"

section \<open>The collector loop\<close>

text \<open>
  What the collector reads of a device's state. The four enumerations are the client
  library's integer types; their \<^verbatim>\<open>String()\<close> methods belong to the library and are
  taken as given (\<open>neato_names\<close>).
\<close>

record Cleaning =
  Category :: int
  NavigationMode :: int

record Details =
  IsCharging :: bool
  IsDocked :: bool
  IsScheduleEnabled :: bool
  DockHasBeenSeen :: bool
  Charge :: int

record RobotState =
  Error :: "string option"
  Alert :: "string option"
  State :: int
  Action :: int
  Cleaning :: Cleaning
  Details :: Details

record RobotMap =
  CleanedArea :: "real option"

record neato_names =
  State_String :: "int \<Rightarrow> string"
  Action_String :: "int \<Rightarrow> string"
  Category_String :: "int \<Rightarrow> string"
  NavigationMode_String :: "int \<Rightarrow> string"

subsection \<open>strconv.FormatBool and strconv.FormatInt(n, 10)\<close>

definition FormatBool :: "bool \<Rightarrow> string" where
  "FormatBool b = (if b then ''true'' else ''false'')"

function FormatUint :: "nat \<Rightarrow> string" where
  "FormatUint n =
     (if n < 10 then [char_of (48 + n)]
      else FormatUint (n div 10) @ [char_of (48 + n mod 10)])"
  by pat_completeness auto
termination
  by (relation "measure (\<lambda>n. n)") auto

declare FormatUint.simps [simp del]

definition FormatInt :: "int \<Rightarrow> string" where
  "FormatInt i = (if i < 0 then CHR ''-'' # FormatUint (nat (- i)) else FormatUint (nat i))"

subsection \<open>Gauges, log lines and the trace of what the collector does\<close>

text \<open>
  A gauge vector maps a tuple of label values to the value last set for it. Gauge values
  are \<^verbatim>\<open>float64\<close>; they are reals here, and the conversion \<^verbatim>\<open>float64(n)\<close> of an
  integer is the integer itself (exact up to \<open>2 ^ 53\<close>, far beyond a battery charge).
  Besides the gauges the collector acts on the world by calling the device client,
  writing log lines and sleeping; the trace records these in order.
\<close>

datatype log_line =
    FailedGetState string string
  | FailedGetMaps string string string
  | NoMapsFound string string
  | NoCleanedArea string string

datatype event =
    CallState Robot
  | CallMaps Robot
  | Log log_line
  | SleepInterval

record world =
  batteryGauge :: "string list \<rightharpoonup> real"
  areaGauge :: "string list \<rightharpoonup> real"
  stateGauge :: "string list \<rightharpoonup> real"
  trace :: "event list"

definition emit :: "event \<Rightarrow> world \<Rightarrow> world" where
  "emit e w = w\<lparr>trace := trace w @ [e]\<rparr>"

definition float64 :: "int \<Rightarrow> real" where
  "float64 n = real_of_int n"

subsection \<open>One device\<close>

text \<open>\<^verbatim>\<open>x := d; if p != nil { x = *p }\<close>\<close>

definition deref_or :: "string \<Rightarrow> string option \<Rightarrow> string" where
  "deref_or d p = (case p of None \<Rightarrow> d | Some v \<Rightarrow> v)"

definition robot_labels :: "Robot \<Rightarrow> string list" where
  "robot_labels r =
     [Name r, Serial r, deref_or ''unknown'' (Model r), deref_or ''unknown'' (Firmware r),
      deref_or ''unknown'' (MACAddress r)]"

definition state_labels :: "neato_names \<Rightarrow> Robot \<Rightarrow> RobotState \<Rightarrow> string list" where
  "state_labels N r s =
     [Name r, Serial r, deref_or ''unknown'' (Model r), deref_or ''unknown'' (Firmware r),
      deref_or ''unknown'' (MACAddress r),
      deref_or ''unset'' (Error s), deref_or ''unset'' (Alert s),
      State_String N (State s), Action_String N (Action s),
      Category_String N (Category (Cleaning s)),
      NavigationMode_String N (NavigationMode (Cleaning s)),
      FormatBool (IsCharging (Details s)), FormatBool (IsDocked (Details s)),
      FormatBool (IsScheduleEnabled (Details s)), FormatBool (DockHasBeenSeen (Details s)),
      FormatInt (Charge (Details s))]"

text \<open>The two gauges set from a fetched state.\<close>

definition set_state_gauges :: "neato_names \<Rightarrow> Robot \<Rightarrow> RobotState \<Rightarrow> world \<Rightarrow> world" where
  "set_state_gauges N r s w =
     w\<lparr>batteryGauge := (batteryGauge w)(robot_labels r \<mapsto> float64 (Charge (Details s))),
       stateGauge := (stateGauge w)(state_labels N r s \<mapsto> 1)\<rparr>"

text \<open>The map fetch that follows, with what \<^verbatim>\<open>r.Maps()\<close> answers.\<close>

definition get_maps :: "Robot \<Rightarrow> string + RobotMap list \<Rightarrow> world \<Rightarrow> world" where
  "get_maps r mres w =
     (let w = emit (CallMaps r) w in
      case mres of
        Inl err \<Rightarrow> emit (Log (FailedGetMaps (Name r) (Serial r) err)) w
      | Inr maps \<Rightarrow>
         (case maps of
            [] \<Rightarrow> emit (Log (NoMapsFound (Name r) (Serial r))) w
          | m # ms \<Rightarrow>
             (case CleanedArea m of
                Some a \<Rightarrow> w\<lparr>areaGauge := (areaGauge w)(robot_labels r \<mapsto> a)\<rparr>
              | None \<Rightarrow> emit (Log (NoCleanedArea (Name r) (Serial r))) w)))"

text \<open>
  The body of the inner loop for one device, given what \<^verbatim>\<open>r.State()\<close> answers and what
  \<^verbatim>\<open>r.Maps()\<close> would answer. On a failed state fetch the body logs, sleeps and goes on
  with \<^verbatim>\<open>continue\<close>, which in Go continues the innermost loop, the one over the devices.
\<close>

type_synonym answers = "(string + RobotState) \<times> (string + RobotMap list)"

fun poll_robot :: "neato_names \<Rightarrow> Robot \<times> answers \<Rightarrow> world \<Rightarrow> world" where
  "poll_robot N (r, sres, mres) w =
     (case sres of
        Inl err \<Rightarrow>
          emit SleepInterval (emit (Log (FailedGetState (Name r) err)) (emit (CallState r) w))
      | Inr s \<Rightarrow> get_maps r mres (set_state_gauges N r s (emit (CallState r) w)))"

subsection \<open>One poll cycle and the loop\<close>

fun poll_robots :: "neato_names \<Rightarrow> (Robot \<times> answers) list \<Rightarrow> world \<Rightarrow> world" where
  "poll_robots N [] w = w"
| "poll_robots N (x # xs) w = poll_robots N xs (poll_robot N x w)"

definition collector_cycle :: "neato_names \<Rightarrow> (Robot \<times> answers) list \<Rightarrow> world \<Rightarrow> world" where
  "collector_cycle N xs w = emit SleepInterval (poll_robots N xs w)"

text \<open>
  The loop never ends; \<open>collector N robots api n w\<close> is the world after its first \<open>n\<close>
  cycles, where \<open>api c i\<close> is what the device at position \<open>i\<close> answers in cycle \<open>c\<close>.
\<close>

definition attach :: "Robot list \<Rightarrow> (nat \<Rightarrow> answers) \<Rightarrow> (Robot \<times> answers) list" where
  "attach robots ans = map (\<lambda>i. (robots ! i, ans i)) [0..<length robots]"

fun collector :: "neato_names \<Rightarrow> Robot list \<Rightarrow> (nat \<Rightarrow> nat \<Rightarrow> answers) \<Rightarrow> nat \<Rightarrow> world \<Rightarrow> world" where
  "collector N robots api 0 w = w"
| "collector N robots api (Suc n) w =
     collector_cycle N (attach robots (api n)) (collector N robots api n w)"

text \<open>The devices whose state was asked for, in the order of the calls.\<close>

fun state_calls :: "event list \<Rightarrow> Robot list" where
  "state_calls [] = []"
| "state_calls (CallState r # es) = r # state_calls es"
| "state_calls (e # es) = state_calls es"

section \<open>Facts about the library functions\<close>

lemmas parse_defs = ParseInt_def ParseUint_def isDigit_def maxUint64_def

lemma strings_Split_not_Nil: "strings_Split sep s \<noteq> []"
  by (induction s) auto

lemma ParseInt_Nil: "ParseInt [] = Inl ErrSyntax"
  by (simp add: ParseInt_def)

text \<open>
  A comparison that looks at the two positions only, and not at the elements there,
  never asks for a swap: the insertion sort returns the slice as it got it.
\<close>

lemma insertion_inner_by_index: "insertion_inner (\<lambda>bots i j. i < j) j xs = xs"
  by (cases j) simp_all

lemma fold_insertion_inner_by_index:
  "fold (insertion_inner (\<lambda>bots i j. i < j)) js xs = xs"
  by (induction js) (simp_all add: insertion_inner_by_index)

lemma sort_Slice_by_index:
  "sort_Slice long (\<lambda>bots i j. i < j) xs = (if length xs \<le> 12 then xs else long xs)"
  by (simp add: sort_Slice_def insertionSortLessFunc_def fold_insertion_inner_by_index)

lemma range_keys_Nil: "range_keys cs [] = []"
  by (cases cs) simp_all

lemma range_keys_single: "range_keys cs [k] = [k]"
  by (cases cs) (simp_all add: range_keys_Nil)

lemma length_range_keys: "length (range_keys cs ks) = length ks"
proof (induction cs arbitrary: ks)
  case Nil
  then show ?case by simp
next
  case (Cons c cs)
  show ?case
  proof (cases "ks = []")
    case True
    then show ?thesis by simp
  next
    case False
    define i where "i = c mod length ks"
    have "i < length ks" using False by (simp add: i_def)
    then have "Suc (length (take i ks @ drop (Suc i) ks)) = length ks" by auto
    then show ?thesis using False Cons.IH by (simp flip: i_def)
  qed
qed

lemma set_range_keys: "set (range_keys cs ks) = set ks"
proof (induction cs arbitrary: ks)
  case Nil
  then show ?case by simp
next
  case (Cons c cs)
  show ?case
  proof (cases "ks = []")
    case True
    then show ?thesis by simp
  next
    case False
    then have lt: "c mod length ks < length ks" by simp
    have "set ks =
      set (take (c mod length ks) ks @ ks ! (c mod length ks) # drop (Suc (c mod length ks)) ks)"
      using id_take_nth_drop [OF lt] by simp
    then show ?thesis using False Cons.IH by simp
  qed
qed

lemma wrap64_id:
  "- 9223372036854775808 \<le> x \<Longrightarrow> x < 9223372036854775808 \<Longrightarrow> wrap64 x = x"
  by (simp add: wrap64_def)

section \<open>Facts about the loop over the parts\<close>

lemma map_insert_idem: "map_insert k (map_insert k m) = map_insert k m"
  by (simp add: map_insert_def)

lemma parse_parts_all_zero:
  "ps \<noteq> [] \<Longrightarrow> \<forall>p\<in>set ps. ParseInt p = Inr 0 \<Longrightarrow>
     parse_parts ps m h = Inr (map_insert 0 m, True)"
proof (induction ps arbitrary: m h)
  case Nil
  then show ?case by simp
next
  case (Cons p ps)
  show ?case
  proof (cases "ps = []")
    case True
    with Cons.prems show ?thesis by simp
  next
    case False
    with Cons show ?thesis by (simp add: map_insert_idem)
  qed
qed

lemma parse_parts_Inr:
  "parse_parts ps m h = Inr (m', h') \<Longrightarrow>
     set m' = set m \<union> {n. \<exists>p\<in>set ps. ParseInt p = Inr n} \<and>
     (h' \<longleftrightarrow> h \<or> (\<exists>p\<in>set ps. ParseInt p = Inr 0))"
proof (induction ps arbitrary: m h)
  case Nil
  then show ?case by simp
next
  case (Cons p ps)
  from Cons.prems obtain n where n: "ParseInt p = Inr n"
    and rest: "parse_parts ps (map_insert n m) (h \<or> n = 0) = Inr (m', h')"
    by (auto split: sum.splits)
  from Cons.IH [OF rest] n show ?case
    by (auto simp: map_insert_def split: if_splits)
qed

lemma parse_parts_first_bad:
  "\<forall>q\<in>set pre. \<exists>n. ParseInt q = Inr n \<Longrightarrow> ParseInt p = Inl err \<Longrightarrow>
     parse_parts (pre @ p # post) m h = Inl (NotValidDigit p err)"
  by (induction pre arbitrary: m h) auto

lemma parse_parts_Inl:
  "parse_parts ps m h = Inl e \<Longrightarrow>
     \<exists>p\<in>set ps. \<exists>err. ParseInt p = Inl err \<and> e = NotValidDigit p err"
  by (induction ps arbitrary: m h) (auto split: sum.splits)

lemma two_keys_length:
  assumes "a \<in> set m" "b \<in> set m" "a \<noteq> b"
  shows "length m > 1"
proof -
  have "card {a, b} \<le> card (set m)" using assms by (intro card_mono) auto
  also have "\<dots> \<le> length m" by (rule card_length)
  finally show ?thesis using assms by simp
qed

lemma distinct_range_keys: "distinct ks \<Longrightarrow> distinct (range_keys cs ks)"
proof (induction cs arbitrary: ks)
  case Nil
  then show ?case by simp
next
  case (Cons c cs)
  show ?case
  proof (cases "ks = []")
    case True
    then show ?thesis by simp
  next
    case False
    define i where "i = c mod length ks"
    have lt: "i < length ks" using False by (simp add: i_def)
    have ks: "ks = take i ks @ ks ! i # drop (Suc i) ks"
      by (rule id_take_nth_drop [OF lt])
    from Cons.prems have d: "distinct (take i ks @ ks ! i # drop (Suc i) ks)"
      using ks by simp
    then have "distinct (take i ks @ drop (Suc i) ks)"
      and "ks ! i \<notin> set (take i ks @ drop (Suc i) ks)"
      by auto
    with Cons.IH [of "take i ks @ drop (Suc i) ks"] show ?thesis
      using False by (simp add: set_range_keys flip: i_def)
  qed
qed

lemma parse_parts_distinct:
  "parse_parts ps m h = Inr (m', h') \<Longrightarrow> distinct m \<Longrightarrow> distinct m'"
proof (induction ps arbitrary: m h)
  case Nil
  then show ?case by simp
next
  case (Cons p ps)
  from Cons.prems(1) obtain n
    where rest: "parse_parts ps (map_insert n m) (h \<or> n = 0) = Inr (m', h')"
    by (auto split: sum.splits)
  from Cons.prems(2) have "distinct (map_insert n m)" by (simp add: map_insert_def)
  with Cons.IH [OF rest] show ?case .
qed

text \<open>
  What \<open>getBots\<close> returns for up to 12 distinct numbers: the parsed numbers, each once,
  in the order in which the map was ranged over.
\<close>

lemma getBots_short_list:
  assumes "getBots rt s = Inr (Some bots)"
    and "parse_parts (strings_Split CHR '','' s) [] False = Inr (botMap, hasZero)"
    and "length botMap \<le> 12"
  shows "bots = range_keys (map_order rt) botMap \<and> distinct bots \<and>
         set bots = {n. \<exists>p\<in>set (strings_Split CHR '','' s). ParseInt p = Inr n}"
proof -
  from assms have b: "bots = range_keys (map_order rt) botMap"
    by (simp add: getBots_def sort_Slice_by_index length_range_keys split: if_splits)
  from parse_parts_distinct [OF assms(2)] have "distinct botMap" by simp
  then have "distinct bots" using b by (simp add: distinct_range_keys)
  moreover from parse_parts_Inr [OF assms(2)]
  have "set bots = {n. \<exists>p\<in>set (strings_Split CHR '','' s). ParseInt p = Inr n}"
    using b by (simp add: set_range_keys)
  ultimately show ?thesis using b by simp
qed

lemma getBots_zero: "getBots rt ''0'' = Inr (Some [0])"
  by (simp add: getBots_def parse_defs map_insert_def sort_Slice_by_index range_keys_single)

section \<open>Facts about the resolution of the selection\<close>

lemma select_robots_in_range:
  assumes "\<forall>m\<in>set pre. 1 \<le> m \<and> m \<le> int (length allRobots)"
    and "int (length allRobots) < 9223372036854775808"
  shows "select_robots (pre @ rest) allRobots robots =
         select_robots rest allRobots (robots @ map (\<lambda>m. allRobots ! nat (m - 1)) pre)"
  using assms(1)
proof (induction pre arbitrary: robots)
  case Nil
  then show ?case by simp
next
  case (Cons m pre)
  then have m: "1 \<le> m" "m \<le> int (length allRobots)" by auto
  with assms(2) have "wrap64 (m - 1) = m - 1" by (intro wrap64_id) auto
  with m Cons show ?case by simp
qed

lemma select_robots_nonpositive:
  assumes "n \<le> 0" "- 9223372036854775808 \<le> n"
    and "int (length allRobots) < 9223372036854775808"
  shows "select_robots (n # ns) allRobots robots =
         Inl (PanicIndexOutOfRange (wrap64 (n - 1)) (length allRobots))"
proof (cases "n = - 9223372036854775808")
  case True
  then show ?thesis using assms(3) by (simp add: wrap64_def)
next
  case False
  with assms have "wrap64 (n - 1) = n - 1" by (intro wrap64_id) auto
  with assms show ?thesis by simp
qed

lemma select_robots_too_large:
  "n > int (length allRobots) \<Longrightarrow>
   select_robots (n # ns) allRobots robots = Inl (Fatal (RobotOutOfBounds n (length allRobots)))"
  by simp

text \<open>
  Where every number met before it is a valid position, the first number beyond the
  roster ends startup with the logged out-of-bounds error.
\<close>

lemma main_too_large_index_fatal:
  assumes "flagToken \<noteq> []"
    and "getBots rt flagBots = Inr (Some (pre @ n # post))"
    and "\<forall>m\<in>set pre. 1 \<le> m \<and> m \<le> int (length allRobots)"
    and "n > int (length allRobots)"
    and "allRobots \<noteq> []" and "int (length allRobots) < 9223372036854775808"
  shows "main rt flagToken flagBots (Inr allRobots) reg =
         Fatal (RobotOutOfBounds n (length allRobots))"
  using assms(1,2,5)
  by (simp add: main_def resolve_def select_robots_in_range [OF assms(3,6)]
      select_robots_too_large [OF assms(4)] del: select_robots.simps)

section \<open>Facts about the collector\<close>

lemma poll_robots_append:
  "poll_robots N (xs @ ys) w = poll_robots N ys (poll_robots N xs w)"
  by (induction xs arbitrary: w) simp_all

lemma poll_robots_split:
  "poll_robots N (pre @ x # post) w = poll_robots N post (poll_robot N x (poll_robots N pre w))"
  by (simp add: poll_robots_append del: poll_robot.simps)

lemma state_calls_append: "state_calls (es @ fs) = state_calls es @ state_calls fs"
  by (induction es rule: state_calls.induct) simp_all

lemma trace_emit: "trace (emit e w) = trace w @ [e]"
  by (simp add: emit_def)

lemma trace_set_state_gauges: "trace (set_state_gauges N r s w) = trace w"
  by (simp add: set_state_gauges_def)

lemma state_calls_get_maps:
  "state_calls (trace (get_maps r mres w)) = state_calls (trace w)"
  by (simp add: get_maps_def Let_def trace_emit state_calls_append
      split: sum.splits list.splits option.splits)

lemma state_calls_poll_robot:
  "state_calls (trace (poll_robot N (r, sres, mres) w)) = state_calls (trace w) @ [r]"
  by (simp add: state_calls_get_maps trace_set_state_gauges trace_emit state_calls_append
      split: sum.splits)

text \<open>Every device of the list is asked for its state, whatever the answers are.\<close>

lemma state_calls_poll_robots:
  "state_calls (trace (poll_robots N xs w)) = state_calls (trace w) @ map fst xs"
proof (induction xs arbitrary: w)
  case Nil
  then show ?case by simp
next
  case (Cons x xs)
  obtain r sres mres where "x = (r, sres, mres)" by (cases x)
  with Cons show ?case by (simp add: state_calls_poll_robot del: poll_robot.simps)
qed

lemma state_calls_split:
  "state_calls (trace (poll_robots N (pre @ (r, a) # post) w)) =
     state_calls (trace w) @ map fst pre @ r # map fst post"
  by (simp add: state_calls_poll_robots)

lemma state_calls_cycle:
  "state_calls (trace (collector_cycle N (pre @ (r, a) # post) w)) =
     state_calls (trace w) @ map fst pre @ r # map fst post"
  by (simp add: collector_cycle_def trace_emit state_calls_append state_calls_poll_robots)

text \<open>Each cycle asks every device once, in the order of the list.\<close>

lemma map_fst_attach: "map fst (attach robots ans) = robots"
  by (simp add: attach_def comp_def map_nth)

lemma state_calls_collector:
  "state_calls (trace (collector N robots api n w)) =
     state_calls (trace w) @ concat (replicate n robots)"
proof (induction n)
  case 0
  then show ?case by simp
next
  case (Suc n)
  have "concat (replicate n robots) @ robots = robots @ concat (replicate n robots)"
    by (induction n) simp_all
  with Suc show ?case
    by (simp add: collector_cycle_def trace_emit state_calls_append state_calls_poll_robots
        map_fst_attach)
qed

lemma poll_robot_state_failed:
  "poll_robot N (r, Inl err, mres) w =
     w\<lparr>trace := trace w @ [CallState r, Log (FailedGetState (Name r) err), SleepInterval]\<rparr>"
  by (simp add: emit_def)

lemma poll_robot_maps_failed:
  "poll_robot N (r, Inr s, Inl err) w =
     (set_state_gauges N r s w)\<lparr>trace := trace w @
        [CallState r, CallMaps r, Log (FailedGetMaps (Name r) (Serial r) err)]\<rparr>"
  by (simp add: emit_def get_maps_def Let_def set_state_gauges_def)

lemma poll_robot_no_maps:
  "poll_robot N (r, Inr s, Inr []) w =
     (set_state_gauges N r s w)\<lparr>trace := trace w @
        [CallState r, CallMaps r, Log (NoMapsFound (Name r) (Serial r))]\<rparr>"
  by (simp add: emit_def get_maps_def Let_def set_state_gauges_def)

lemma poll_robot_no_area:
  "poll_robot N (r, Inr s, Inr (m\<lparr>CleanedArea := None\<rparr> # ms)) w =
     (set_state_gauges N r s w)\<lparr>trace := trace w @
        [CallState r, CallMaps r, Log (NoCleanedArea (Name r) (Serial r))]\<rparr>"
  by (simp add: emit_def get_maps_def Let_def set_state_gauges_def)

lemma areaGauge_set_state_gauges: "areaGauge (set_state_gauges N r s w) = areaGauge w"
  by (simp add: set_state_gauges_def)






section \<open>The claims\<close>

subsection \<open>The collector and a failed state fetch\<close>

text \<open>
  C1, as the code has it. When the state fetch fails for a device, the collector logs
  the error with the device's name and sleeps for the interval; no gauge changes and the
  maps of that device are not asked for. The cycle is not given up: the loop goes on with
  the devices after it, and every device of the list, before and after the failing one,
  is asked for its state in that same cycle.
\<close>

theorem state_failure_skips_only_that_device:
  "poll_robot N (r, Inl err, mres) w =
     w\<lparr>trace := trace w @ [CallState r, Log (FailedGetState (Name r) err), SleepInterval]\<rparr> \<and>
   poll_robots N (pre @ (r, Inl err, mres) # post) w =
     poll_robots N post (poll_robot N (r, Inl err, mres) (poll_robots N pre w)) \<and>
   state_calls (trace (collector_cycle N (pre @ (r, Inl err, mres) # post) w)) =
     state_calls (trace w) @ map fst pre @ r # map fst post"
  by (intro conjI poll_robot_state_failed poll_robots_split state_calls_cycle)

text \<open>
  C1 as stated says that no device after the failing one is polled in that cycle. With
  two devices of which the first fails, the second is asked for its state in the same
  cycle, between the sleep after the failure and the sleep that ends the cycle.
\<close>

theorem state_failure_counterexample:
  "trace (collector_cycle
     \<lparr>State_String = (\<lambda>n. ''idle''), Action_String = (\<lambda>n. ''none''),
      Category_String = (\<lambda>n. ''house''), NavigationMode_String = (\<lambda>n. ''normal'')\<rparr>
     [(\<lparr>Name = ''a'', Serial = ''1'', Model = None, Firmware = None, MACAddress = None\<rparr>,
       Inl ''timeout'', Inr []),
      (\<lparr>Name = ''b'', Serial = ''2'', Model = None, Firmware = None, MACAddress = None\<rparr>,
       Inl ''timeout'', Inr [])]
     \<lparr>batteryGauge = Map.empty, areaGauge = Map.empty, stateGauge = Map.empty, trace = []\<rparr>) =
   [CallState \<lparr>Name = ''a'', Serial = ''1'', Model = None, Firmware = None, MACAddress = None\<rparr>,
    Log (FailedGetState ''a'' ''timeout''), SleepInterval,
    CallState \<lparr>Name = ''b'', Serial = ''2'', Model = None, Firmware = None, MACAddress = None\<rparr>,
    Log (FailedGetState ''b'' ''timeout''), SleepInterval,
    SleepInterval]"
  by (simp add: collector_cycle_def emit_def)

subsection \<open>The selection made of zeros only\<close>

text \<open>
  C2 says that a selection whose parts are all zero gives the \<^verbatim>\<open>nil\<close> selection. The
  code does not: the map then holds the one key 0, so its length is 1, neither of the
  two tests under \<^verbatim>\<open>hasZero\<close> applies, and the slice holding 0 is returned. This holds
  for every string whose parts all parse to zero, whatever the runtime does.
\<close>

theorem getBots_only_zero:
  assumes "s \<noteq> []" and "\<forall>p\<in>set (strings_Split CHR '','' s). ParseInt p = Inr 0"
  shows "getBots rt s = Inr (Some [0])"
  using assms parse_parts_all_zero [OF strings_Split_not_Nil, of "CHR '',''" s "[]" False]
  by (simp add: getBots_def map_insert_def sort_Slice_by_index range_keys_single)

theorem getBots_only_zero_witness:
  "getBots \<lparr>map_order = [], sort_long = (\<lambda>xs. xs)\<rparr> ''0,0'' = Inr (Some [0])"
  using getBots_only_zero [of "''0,0''" "\<lparr>map_order = [], sort_long = (\<lambda>xs. xs)\<rparr>"]
  by (simp add: parse_defs)

subsection \<open>The order of the selection\<close>

text \<open>
  C3 says that the returned list is sorted in ascending order. The comparison handed to
  \<^verbatim>\<open>sort.Slice\<close> compares the two positions, not the numbers at them, so the slice
  stays in the order in which the map was ranged over. Whatever that order is, one of
  the selections \<^verbatim>\<open>2,1\<close> and \<^verbatim>\<open>1,2\<close> comes back as the descending list.
\<close>

theorem getBots_not_sorted:
  "getBots rt ''2,1'' = Inr (Some [2, 1]) \<or> getBots rt ''1,2'' = Inr (Some [2, 1])"
proof -
  have a: "getBots rt ''2,1'' = Inr (Some (range_keys (map_order rt) [2, 1]))"
    by (simp add: getBots_def parse_defs map_insert_def sort_Slice_by_index length_range_keys)
  have b: "getBots rt ''1,2'' = Inr (Some (range_keys (map_order rt) [1, 2]))"
    by (simp add: getBots_def parse_defs map_insert_def sort_Slice_by_index length_range_keys)
  show ?thesis
  proof (cases "map_order rt")
    case Nil
    with a show ?thesis by simp
  next
    case (Cons c cs)
    have "c mod Suc (Suc 0) = 0 \<or> c mod Suc (Suc 0) = Suc 0" by arith
    then show ?thesis using a b Cons by (auto simp: range_keys_single)
  qed
qed

subsection \<open>A selected number below 1\<close>

text \<open>
  C4, as the code has it. The bounds check of the resolution loop tests only whether
  the number exceeds the size of the roster. Let the selection returned by \<open>getBots\<close>
  hold a number \<open>n \<le> 0\<close>, with every number before it in the list a valid position
  of the roster. Then startup reaches the access \<^verbatim>\<open>allRobots[n-1]\<close> and ends in the
  index-out-of-range panic, not in the logged out-of-bounds error. (The two bounds say
  that \<open>n\<close> is a Go \<^verbatim>\<open>int\<close> and that the roster is a Go slice.)
\<close>

theorem main_nonpositive_index_panics:
  assumes "flagToken \<noteq> []"
    and "getBots rt flagBots = Inr (Some (pre @ n # post))"
    and "\<forall>m\<in>set pre. 1 \<le> m \<and> m \<le> int (length allRobots)"
    and "n \<le> 0" and "- 9223372036854775808 \<le> n"
    and "allRobots \<noteq> []" and "int (length allRobots) < 9223372036854775808"
  shows "main rt flagToken flagBots (Inr allRobots) reg =
         PanicIndexOutOfRange (wrap64 (n - 1)) (length allRobots)"
  using assms(1,2,6)
  by (simp add: main_def resolve_def select_robots_in_range [OF assms(3,7)]
      select_robots_nonpositive [OF assms(4,5,7)] del: select_robots.simps)

theorem main_nonpositive_index_panics_witness:
  "main \<lparr>map_order = [], sort_long = (\<lambda>xs. xs)\<rparr> ''token'' ''0'' (Inr (replicate 3 \<lparr>Name = ''bot'', Serial = ''s'', Model = None, Firmware = None, MACAddress = None\<rparr>)) (\<lambda>g. None) = PanicIndexOutOfRange (- 1) 3"
proof -
  have g: "getBots \<lparr>map_order = [], sort_long = (\<lambda>xs. xs)\<rparr> ''0'' = Inr (Some ([] @ 0 # []))"
    by (simp add: getBots_zero)
  show ?thesis
    using main_nonpositive_index_panics [OF _ g, of "''token''" "replicate 3 \<lparr>Name = ''bot'', Serial = ''s'', Model = None, Firmware = None, MACAddress = None\<rparr>" "\<lambda>g. None"]
    by (simp add: wrap64_def)
qed

text \<open>
  C4 as stated speaks of every list with a number below 1. The list is not sorted,
  though: the selection \<^verbatim>\<open>5,-1\<close> can come back as 5 before -1, and against a roster
  of three devices startup then ends with the logged out-of-bounds error for 5 and
  never reaches the access for -1.
\<close>

theorem nonpositive_index_counterexample:
  "getBots \<lparr>map_order = [], sort_long = (\<lambda>xs. xs)\<rparr> ''5,-1'' = Inr (Some [5, - 1]) \<and>
   main \<lparr>map_order = [], sort_long = (\<lambda>xs. xs)\<rparr> ''token'' ''5,-1'' (Inr (replicate 3 \<lparr>Name = ''bot'', Serial = ''s'', Model = None, Firmware = None, MACAddress = None\<rparr>)) (\<lambda>g. None) =
     Fatal (RobotOutOfBounds 5 3)"
proof -
  have g: "getBots \<lparr>map_order = [], sort_long = (\<lambda>xs. xs)\<rparr> ''5,-1'' = Inr (Some [5, - 1])"
    by (simp add: getBots_def parse_defs map_insert_def sort_Slice_by_index)
  then show ?thesis by (simp add: main_def resolve_def)
qed

subsection \<open>Zero mixed with another number\<close>

text \<open>
  C5. A selection with a part that parses to zero and a part that parses to another
  number is refused: \<open>getBots\<close> returns an error and no list. The error is the one about
  a list containing zero, unless some part does not parse, in which case it is the error
  about that part.
\<close>

theorem getBots_zero_mixed:
  assumes "p \<in> set (strings_Split CHR '','' s)" "ParseInt p = Inr 0"
    and "q \<in> set (strings_Split CHR '','' s)" "ParseInt q = Inr n" "n \<noteq> 0"
  shows "getBots rt s = Inl ListContainsZero \<or>
         (\<exists>t err. t \<in> set (strings_Split CHR '','' s) \<and> ParseInt t = Inl err \<and>
                   getBots rt s = Inl (NotValidDigit t err))"
proof -
  have ne: "s \<noteq> []"
    using assms(1,2) by (auto simp: ParseInt_Nil)
  show ?thesis
  proof (cases "parse_parts (strings_Split CHR '','' s) [] False")
    case (Inl e)
    from parse_parts_Inl [OF Inl] obtain t err
      where "t \<in> set (strings_Split CHR '','' s)" "ParseInt t = Inl err" "e = NotValidDigit t err"
      by blast
    with Inl ne show ?thesis by (auto simp: getBots_def)
  next
    case (Inr r)
    obtain m' h' where r: "r = (m', h')" by (cases r)
    from parse_parts_Inr [OF Inr [unfolded r]] assms
    have "0 \<in> set m'" "n \<in> set m'" "h'" by auto
    with two_keys_length [of 0 m' n] assms(5) have "length m' > 1" by simp
    with Inr r ne \<open>h'\<close> show ?thesis by (simp add: getBots_def)
  qed
qed

theorem getBots_zero_mixed_witness:
  "getBots \<lparr>map_order = [], sort_long = (\<lambda>xs. xs)\<rparr> ''0,1'' = Inl ListContainsZero"
  using getBots_zero_mixed [of "''0''" "''0,1''" "''1''" 1 "\<lparr>map_order = [], sort_long = (\<lambda>xs. xs)\<rparr>"]
  by (simp add: getBots_def parse_defs map_insert_def)

subsection \<open>A selected number beyond the roster\<close>

text \<open>
  C6 says that a selection with a number beyond the roster ends startup with the logged
  out-of-bounds error. The loop checks the numbers in the order of the list and has no
  check for numbers below 1: for the selection \<^verbatim>\<open>-1,5\<close> against a roster of three
  devices, with -1 met first, startup ends in the index-out-of-range panic of
  \<^verbatim>\<open>allRobots[-2]\<close>, and the out-of-bounds error for 5 is never logged.
\<close>

theorem main_negative_before_too_large_panics:
  "main \<lparr>map_order = [], sort_long = (\<lambda>xs. xs)\<rparr> ''token'' ''-1,5'' (Inr (replicate 3 \<lparr>Name = ''bot'', Serial = ''s'', Model = None, Firmware = None, MACAddress = None\<rparr>)) (\<lambda>g. None) =
     PanicIndexOutOfRange (- 2) 3"
proof -
  have g: "getBots \<lparr>map_order = [], sort_long = (\<lambda>xs. xs)\<rparr> ''-1,5'' = Inr (Some [- 1, 5])"
    by (simp add: getBots_def parse_defs map_insert_def sort_Slice_by_index)
  then show ?thesis by (simp add: main_def resolve_def wrap64_def)
qed

subsection \<open>Trouble with the maps\<close>

text \<open>
  C7. When the state fetch of a device succeeds and its map fetch fails, or gives no
  map, or gives a first map without a cleaned area, the device's pass differs from the
  world with the two state gauges set only by the trace: the state call, the maps call
  and one log line. Setting the state gauges does not touch the area gauge, so the area
  gauge is as it was, for every label tuple. The loop then goes on with the devices
  after it, and every device of the list is asked for its state.
\<close>

theorem maps_trouble_leaves_gauges:
  "poll_robot N (r, Inr s, Inl err) w =
     (set_state_gauges N r s w)\<lparr>trace := trace w @
        [CallState r, CallMaps r, Log (FailedGetMaps (Name r) (Serial r) err)]\<rparr> \<and>
   poll_robot N (r, Inr s, Inr []) w =
     (set_state_gauges N r s w)\<lparr>trace := trace w @
        [CallState r, CallMaps r, Log (NoMapsFound (Name r) (Serial r))]\<rparr> \<and>
   poll_robot N (r, Inr s, Inr (m\<lparr>CleanedArea := None\<rparr> # ms)) w =
     (set_state_gauges N r s w)\<lparr>trace := trace w @
        [CallState r, CallMaps r, Log (NoCleanedArea (Name r) (Serial r))]\<rparr> \<and>
   areaGauge (set_state_gauges N r s w) = areaGauge w \<and>
   poll_robots N (pre @ (r, Inr s, mres) # post) w =
     poll_robots N post (poll_robot N (r, Inr s, mres) (poll_robots N pre w)) \<and>
   state_calls (trace (poll_robots N (pre @ (r, Inr s, mres) # post) w)) =
     state_calls (trace w) @ map fst pre @ r # map fst post"
  by (intro conjI poll_robot_maps_failed poll_robot_no_maps poll_robot_no_area
      areaGauge_set_state_gauges poll_robots_split state_calls_split)

subsection \<open>The gauges set from a fetched state\<close>


subsection \<open>Absent attributes in the labels\<close>

text \<open>
  C9. In the labels of both gauges an absent model, firmware or MAC address reads
  \<^verbatim>\<open>unknown\<close>, in the labels of the state gauge an absent error or alert code reads
  \<^verbatim>\<open>unset\<close>, and an attribute that is present reads as its value.
\<close>

theorem absent_attributes_rendered:
  "robot_labels (r\<lparr>Model := None\<rparr>) ! 2 = ''unknown'' \<and>
   robot_labels (r\<lparr>Model := Some v\<rparr>) ! 2 = v \<and>
   robot_labels (r\<lparr>Firmware := None\<rparr>) ! 3 = ''unknown'' \<and>
   robot_labels (r\<lparr>Firmware := Some v\<rparr>) ! 3 = v \<and>
   robot_labels (r\<lparr>MACAddress := None\<rparr>) ! 4 = ''unknown'' \<and>
   robot_labels (r\<lparr>MACAddress := Some v\<rparr>) ! 4 = v \<and>
   state_labels N (r\<lparr>Model := None\<rparr>) s ! 2 = ''unknown'' \<and>
   state_labels N (r\<lparr>Model := Some v\<rparr>) s ! 2 = v \<and>
   state_labels N (r\<lparr>Firmware := None\<rparr>) s ! 3 = ''unknown'' \<and>
   state_labels N (r\<lparr>Firmware := Some v\<rparr>) s ! 3 = v \<and>
   state_labels N (r\<lparr>MACAddress := None\<rparr>) s ! 4 = ''unknown'' \<and>
   state_labels N (r\<lparr>MACAddress := Some v\<rparr>) s ! 4 = v \<and>
   state_labels N r (s\<lparr>Error := None\<rparr>) ! 5 = ''unset'' \<and>
   state_labels N r (s\<lparr>Error := Some v\<rparr>) ! 5 = v \<and>
   state_labels N r (s\<lparr>Alert := None\<rparr>) ! 6 = ''unset'' \<and>
   state_labels N r (s\<lparr>Alert := Some v\<rparr>) ! 6 = v"
  by (simp add: robot_labels_def state_labels_def deref_or_def)

subsection \<open>A part that is not an integer\<close>

text \<open>
  C10. If some part of a selection string (which is not empty: the empty string has no
  parts and selects all) does not parse as an integer, \<open>getBots\<close> returns no list but the
  error built from the first such part and from what the parser said about it.
\<close>

theorem getBots_bad_token:
  assumes "s \<noteq> []" and "t \<in> set (strings_Split CHR '','' s)" and "ParseInt t = Inl e"
  shows "\<exists>pre p post err. strings_Split CHR '','' s = pre @ p # post \<and>
           (\<forall>q\<in>set pre. \<exists>n. ParseInt q = Inr n) \<and> ParseInt p = Inl err \<and>
           getBots rt s = Inl (NotValidDigit p err)"
proof -
  from assms(2,3) have "\<exists>x\<in>set (strings_Split CHR '','' s). \<not> (\<exists>n. ParseInt x = Inr n)"
    by (intro bexI [of _ t]) auto
  from split_list_first_prop [OF this] obtain pre p post
    where sp: "strings_Split CHR '','' s = pre @ p # post"
      and bad: "\<not> (\<exists>n. ParseInt p = Inr n)"
      and good: "\<forall>q\<in>set pre. \<exists>n. ParseInt q = Inr n"
    by auto
  from bad obtain err where err: "ParseInt p = Inl err"
    by (cases "ParseInt p") auto
  from parse_parts_first_bad [OF good err]
  have "getBots rt s = Inl (NotValidDigit p err)"
    using assms(1) sp by (simp add: getBots_def)
  with sp good err show ?thesis by blast
qed

theorem getBots_bad_token_witness:
  "getBots \<lparr>map_order = [], sort_long = (\<lambda>xs. xs)\<rparr> ''1,x2,y'' = Inl (NotValidDigit ''x2'' ErrSyntax)"
proof -
  have a: "''1,x2,y'' \<noteq> []" by simp
  have b: "''x2'' \<in> set (strings_Split CHR '','' ''1,x2,y'')" by simp
  have c: "ParseInt ''x2'' = Inl ErrSyntax" by (simp add: parse_defs)
  show ?thesis
    using getBots_bad_token [OF a b c, of "\<lparr>map_order = [], sort_long = (\<lambda>xs. xs)\<rparr>"]
    by (simp add: getBots_def parse_defs)
qed

end
